theory Spec2Isabelle
  imports Complex_Main "HOL-Library.AList"
begin

section \<open>Data model\<close>

text \<open>
  A sample row is a Python dict from column name to a loosely typed scalar. A dict keeps
  insertion order and has distinct keys, so it is an association list here. \<open>CNone\<close> is an
  explicit \<open>None\<close> (JSON null); \<open>CNaN\<close> is the float NaN that \<open>pd.DataFrame\<close> puts where a row
  lacks a key. Numbers are reals: the statistics are modelled in exact arithmetic.
\<close>

datatype cell = CNone | CNaN | CBool bool | CNum real | CStr string

type_synonym row = "(string \<times> cell) list"

text \<open>
  The parts of pandas and of Python that the source calls and that work on text: how
  \<open>pd.to_numeric\<close> reads one string, what \<open>pd.to_datetime(..., errors="coerce")\<close> makes of a
  column (a timestamp or NaT per position), \<open>str\<close> of a number, and \<open>str(ts.date())\<close>.
  They are parameters of the model.
\<close>

record pandas =
  parse_float :: "string \<Rightarrow> real option"
  to_datetime :: "cell list \<Rightarrow> int option list"
  str_of_num :: "real \<Rightarrow> string"
  str_of_date :: "int \<Rightarrow> string"

record dataframe =
  nrows :: nat
  df_columns :: "(string \<times> cell list) list"

datatype dtype = DNumeric | DBool | DObject

record ColumnMeta =
  name :: string
  dtype :: string

record TableSchema =
  schema_name :: string
  schema_columns :: "ColumnMeta list"

datatype statval = SNone | SInt int | SFloat real | SNaN | SStr string
  | SCounts "(string \<times> nat) list"

type_synonym stats = "(string \<times> statval) list"

type_synonym corr = "(string \<times> (string \<times> statval) list) list"

text \<open>A table profile is a dict; a field that is \<open>None\<close> here is a key the dict lacks.\<close>

record table_info =
  row_count :: "nat option"
  columns :: "(string \<times> stats) list option"
  correlation_pearson :: "corr option"

record flat_row =
  r_level :: string
  r_table :: string
  r_column :: string
  r_metric :: string
  r_value :: statval

record SuggestedChart =
  ch_title :: string
  ch_kind :: string
  ch_table :: string
  ch_x :: string
  ch_y :: "string option"
  ch_note :: "string option"

section \<open>Python and pandas helpers\<close>

text \<open>The keys of a list in the order of their first occurrence.\<close>

definition uniq :: "'a list \<Rightarrow> 'a list" where
  "uniq xs = rev (remdups (rev xs))"

text \<open>\<open>dict.update\<close>: an existing key keeps its place, a new key goes to the end.\<close>

definition dict_update :: "('k \<times> 'v) list \<Rightarrow> ('k \<times> 'v) list \<Rightarrow> ('k \<times> 'v) list" where
  "dict_update d kvs = fold (\<lambda>(k, v) acc. AList.update k v acc) kvs d"

definition lower_char :: "char \<Rightarrow> char" where
  "lower_char c = (let n = (of_char c :: nat) in
     if 65 \<le> n \<and> n \<le> 90 then char_of (n + 32) else c)"

text \<open>\<open>str.lower\<close> on ASCII text.\<close>

definition lower :: "string \<Rightarrow> string" where
  "lower s = map lower_char s"

fun starts_with :: "string \<Rightarrow> string \<Rightarrow> bool" where
  "starts_with [] s = True"
| "starts_with (p # ps) [] = False"
| "starts_with (p # ps) (c # cs) = (p = c \<and> starts_with ps cs)"

text \<open>\<open>sub in s\<close> on strings.\<close>

fun contains :: "string \<Rightarrow> string \<Rightarrow> bool" where
  "contains sub [] = (sub = [])"
| "contains sub (c # cs) = (starts_with sub (c # cs) \<or> contains sub cs)"

fun isna :: "cell \<Rightarrow> bool" where
  "isna CNone = True"
| "isna CNaN = True"
| "isna (CBool b) = False"
| "isna (CNum r) = False"
| "isna (CStr s) = False"

fun is_num_or_na :: "cell \<Rightarrow> bool" where
  "is_num_or_na CNone = True"
| "is_num_or_na CNaN = True"
| "is_num_or_na (CNum r) = True"
| "is_num_or_na (CBool b) = False"
| "is_num_or_na (CStr s) = False"

fun is_float :: "cell \<Rightarrow> bool" where
  "is_float CNaN = True"
| "is_float (CNum r) = True"
| "is_float CNone = False"
| "is_float (CBool b) = False"
| "is_float (CStr s) = False"

fun is_bool :: "cell \<Rightarrow> bool" where
  "is_bool (CBool b) = True"
| "is_bool CNone = False"
| "is_bool CNaN = False"
| "is_bool (CNum r) = False"
| "is_bool (CStr s) = False"

text \<open>
  The dtype pandas infers for a column built from a list of dicts: \<open>bool\<close> when every
  value is a boolean, a numeric dtype when the values are numbers and nulls with at least
  one float or integer among them, \<open>object\<close> otherwise (any string, a mix of booleans
  with anything else, or nothing but \<open>None\<close>).
\<close>

definition dtype_of :: "cell list \<Rightarrow> dtype" where
  "dtype_of series =
     (if series \<noteq> [] \<and> list_all is_bool series then DBool
      else if list_all is_num_or_na series \<and> list_ex is_float series then DNumeric
      else DObject)"

text \<open>\<open>pd.api.types.is_numeric_dtype\<close>: true of integer, float and bool dtypes.\<close>

fun is_numeric_dtype :: "dtype \<Rightarrow> bool" where
  "is_numeric_dtype DNumeric = True"
| "is_numeric_dtype DBool = True"
| "is_numeric_dtype DObject = False"

fun dropna :: "'a option list \<Rightarrow> 'a list" where
  "dropna [] = []"
| "dropna (None # xs) = dropna xs"
| "dropna (Some x # xs) = x # dropna xs"

text \<open>\<open>s.notna().any()\<close> on a coerced column.\<close>

definition notna_any :: "'a option list \<Rightarrow> bool" where
  "notna_any xs = (dropna xs \<noteq> [])"

text \<open>
  Python equality on scalars makes \<open>True == 1\<close> and \<open>False == 0\<close>; \<open>nunique\<close> hashes
  with it.
\<close>

fun py_key :: "cell \<Rightarrow> cell" where
  "py_key (CBool b) = CNum (if b then 1 else 0)"
| "py_key CNone = CNone"
| "py_key CNaN = CNaN"
| "py_key (CNum r) = CNum r"
| "py_key (CStr s) = CStr s"

text \<open>\<open>series.nunique(dropna=True)\<close>.\<close>

definition nunique :: "cell list \<Rightarrow> nat" where
  "nunique series = length (remdups (map py_key (filter (\<lambda>c. \<not> isna c) series)))"

text \<open>\<open>series.astype(str)\<close> on an object column: every element goes through \<open>str\<close>,
  the nulls too, so \<open>None\<close> becomes the text \<open>None\<close> and NaN the text \<open>nan\<close> (pandas 1.x
  and 2.x, the versions that take the \<open>infer_datetime_format\<close> argument the source passes
  to \<open>pd.to_datetime\<close>).\<close>

fun astype_str :: "pandas \<Rightarrow> cell \<Rightarrow> string" where
  "astype_str L CNone = ''None''"
| "astype_str L CNaN = ''nan''"
| "astype_str L (CBool b) = (if b then ''True'' else ''False'')"
| "astype_str L (CNum r) = str_of_num L r"
| "astype_str L (CStr s) = s"

text \<open>
  \<open>value_counts\<close> of a column of strings: one entry per distinct string in first-seen
  order, then sorted by descending count (ties keep the first-seen order).
\<close>

definition value_counts :: "string list \<Rightarrow> (string \<times> nat) list" where
  "value_counts xs =
     sort_key (\<lambda>(k, c). - int c) (map (\<lambda>k. (k, count_list xs k)) (uniq xs))"

section \<open>\<open>dataide/utils.py\<close>\<close>

definition cell_at :: "row \<Rightarrow> string \<Rightarrow> cell" where
  "cell_at r c = (case map_of r c of None \<Rightarrow> CNaN | Some v \<Rightarrow> v)"

text \<open>\<open>pd.DataFrame(rows)\<close>: the columns are the keys of the rows in first-seen order; a row
  that lacks a key holds NaN there; the frame has one line per row.\<close>

definition to_dataframe :: "row list \<Rightarrow> dataframe" where
  "to_dataframe rows =
     \<lparr>nrows = length rows,
      df_columns = map (\<lambda>c. (c, map (\<lambda>r. cell_at r c) rows))
                       (uniq (concat (map (map fst) rows)))\<rparr>"

text \<open>\<open>pd.to_numeric(..., errors="coerce")\<close> on one element.\<close>

fun to_numeric :: "pandas \<Rightarrow> cell \<Rightarrow> real option" where
  "to_numeric L CNone = None"
| "to_numeric L CNaN = None"
| "to_numeric L (CBool b) = Some (if b then 1 else 0)"
| "to_numeric L (CNum r) = Some r"
| "to_numeric L (CStr s) = parse_float L s"

definition coerce_numeric :: "pandas \<Rightarrow> cell list \<Rightarrow> real option list" where
  "coerce_numeric L series = map (to_numeric L) series"

definition coerce_datetime :: "pandas \<Rightarrow> cell list \<Rightarrow> int option list" where
  "coerce_datetime L series = to_datetime L series"

section \<open>Descriptive statistics over the coerced non-null values\<close>

text \<open>These are only called on a non-empty list, behind \<open>notna().any()\<close>.\<close>

definition series_min :: "real list \<Rightarrow> real" where
  "series_min vs = fold min (tl vs) (hd vs)"

definition series_max :: "real list \<Rightarrow> real" where
  "series_max vs = fold max (tl vs) (hd vs)"

definition mean :: "real list \<Rightarrow> real" where
  "mean vs = sum_list vs / real (length vs)"

text \<open>\<open>std(ddof=0)\<close>: the population standard deviation.\<close>

definition std :: "real list \<Rightarrow> real" where
  "std vs = sqrt (sum_list (map (\<lambda>v. (v - mean vs)\<^sup>2) vs) / real (length vs))"

text \<open>
  \<open>quantile(q)\<close> with linear interpolation: the position \<open>q * (n - 1)\<close> in the sorted
  values, interpolated between its two neighbours.
\<close>

definition quantile :: "real \<Rightarrow> real list \<Rightarrow> real" where
  "quantile q vs =
     (let s = sort vs; n = length s; pos = q * real (n - 1);
          i = nat \<lfloor>pos\<rfloor>; frac = pos - real i
      in if i + 1 < n then s ! i + frac * (s ! (i + 1) - s ! i) else s ! i)"

definition numeric_block :: "real list \<Rightarrow> stats" where
  "numeric_block vs =
     [(''min'', SFloat (series_min vs)),
      (''p25'', SFloat (quantile (1/4) vs)),
      (''p50'', SFloat (quantile (1/2) vs)),
      (''p75'', SFloat (quantile (3/4) vs)),
      (''max'', SFloat (series_max vs)),
      (''mean'', SFloat (mean vs)),
      (''std'', SFloat (std vs))]"

definition date_min :: "int list \<Rightarrow> int" where
  "date_min vs = fold min (tl vs) (hd vs)"

definition date_max :: "int list \<Rightarrow> int" where
  "date_max vs = fold max (tl vs) (hd vs)"

section \<open>Correlation\<close>

fun complete_pairs :: "real option list \<Rightarrow> real option list \<Rightarrow> (real \<times> real) list" where
  "complete_pairs (Some x # xs) (Some y # ys) = (x, y) # complete_pairs xs ys"
| "complete_pairs (x # xs) (y # ys) = complete_pairs xs ys"
| "complete_pairs xs ys = []"

text \<open>
  One entry of \<open>DataFrame.corr()\<close> (Pearson, \<open>min_periods = 1\<close>), over the lines where both
  columns are non-null: the sums of squared deviations and of cross deviations (pandas
  accumulates them in one pass; in exact arithmetic these are the same sums), the
  quotient when the divisor is not zero and NaN (\<open>None\<close>) otherwise.
\<close>

definition pearson :: "real option list \<Rightarrow> real option list \<Rightarrow> real option" where
  "pearson xs ys =
     (let ps = complete_pairs xs ys; nobs = length ps in
      if nobs < 1 then None
      else
        (let meanx = mean (map fst ps); meany = mean (map snd ps);
             ssqdm_x = sum_list (map (\<lambda>(x, y). (x - meanx)\<^sup>2) ps);
             ssqdm_y = sum_list (map (\<lambda>(x, y). (y - meany)\<^sup>2) ps);
             covxy = sum_list (map (\<lambda>(x, y). (x - meanx) * (y - meany)) ps);
             divisor = sqrt (ssqdm_x * ssqdm_y)
         in if divisor \<noteq> 0 then Some (covxy / divisor) else None))"

text \<open>Rounding to the nearest integer, a tie going to the even neighbour.\<close>

definition round_half_even :: "real \<Rightarrow> int" where
  "round_half_even y =
     (let f = \<lfloor>y\<rfloor>; d = y - of_int f in
      if d < 1/2 then f else if 1/2 < d then f + 1 else if even f then f else f + 1)"

text \<open>\<open>.round(3)\<close> on one entry; NaN stays NaN.\<close>

definition round3 :: "real option \<Rightarrow> statval" where
  "round3 v = (case v of None \<Rightarrow> SNaN
     | Some r \<Rightarrow> SFloat (of_int (round_half_even (r * 1000)) / 1000))"

text \<open>
  pandas computes the entry of the columns at positions \<open>i\<close> and \<open>j\<close> once, for \<open>j \<le> i\<close>,
  and stores it at both places.
\<close>

definition corr_entry :: "real option list list \<Rightarrow> nat \<Rightarrow> nat \<Rightarrow> real option" where
  "corr_entry mat i j = (if j \<le> i then pearson (mat ! i) (mat ! j) else pearson (mat ! j) (mat ! i))"

text \<open>\<open>numeric_df.corr(numeric_only=True).round(3).to_dict()\<close>.\<close>

definition corr_to_dict :: "(string \<times> real option list) list \<Rightarrow> corr" where
  "corr_to_dict numeric_df =
     (let names = map fst numeric_df; mat = map snd numeric_df; n = length numeric_df in
      map (\<lambda>j. (names ! j, map (\<lambda>i. (names ! i, round3 (corr_entry mat i j))) [0..<n])) [0..<n])"

section \<open>\<open>dataide/services/profile.py\<close>\<close>

text \<open>\<open>{t.name: t for t in tables}.get(table_name)\<close>: a later table of the same name
  replaces an earlier one.\<close>

definition schema_by_table :: "TableSchema list \<Rightarrow> string \<Rightarrow> TableSchema option" where
  "schema_by_table tables = map_of (rev (map (\<lambda>t. (schema_name t, t)) tables))"

fun find_hint :: "ColumnMeta list \<Rightarrow> string \<Rightarrow> string option" where
  "find_hint [] column_name = None"
| "find_hint (column_meta # rest) column_name =
     (if name column_meta = column_name then Some (lower (dtype column_meta))
      else find_hint rest column_name)"

definition numeric_hints :: "string list" where
  "numeric_hints = [''int'', ''integer'', ''bigint'', ''float'', ''double'', ''decimal'', ''number'']"

definition is_numeric_hint :: "string option \<Rightarrow> bool" where
  "is_numeric_hint hinted_dtype =
     (case hinted_dtype of None \<Rightarrow> False | Some h \<Rightarrow> List.member numeric_hints h)"

definition is_date_hint :: "string option \<Rightarrow> bool" where
  "is_date_hint hinted_dtype =
     (case hinted_dtype of None \<Rightarrow> False | Some h \<Rightarrow> h \<noteq> [] \<and> contains ''date'' h)"

text \<open>The body of the loop over \<open>df.columns\<close>, one definition per statement: the dict
  literal \<open>stats\<close>, then the three conditional updates.\<close>

definition base_stats :: "nat \<Rightarrow> cell list \<Rightarrow> stats" where
  "base_stats len_df series =
     (let non_null_count = length (filter (\<lambda>c. \<not> isna c) series) in
      [(''non_null'', SInt (int non_null_count)),
       (''nulls'', SInt (int len_df - int non_null_count)),
       (''null_pct'', SFloat (if len_df = 0 then 0
          else (real len_df - real non_null_count) / real (max 1 len_df))),
       (''distinct'', SInt (int (nunique series)))])"

definition lookup_hint :: "TableSchema option \<Rightarrow> string \<Rightarrow> string option" where
  "lookup_hint t_schema column_name =
     (case t_schema of None \<Rightarrow> None | Some t \<Rightarrow> find_hint (schema_columns t) column_name)"

definition numeric_summary :: "pandas \<Rightarrow> string option \<Rightarrow> cell list \<Rightarrow> stats \<Rightarrow> stats" where
  "numeric_summary L hinted_dtype series stats =
     (if is_numeric_hint hinted_dtype \<or> is_numeric_dtype (dtype_of series) then
        (let numeric = coerce_numeric L series in
         if notna_any numeric then dict_update stats (numeric_block (dropna numeric))
         else stats)
      else stats)"

definition date_range ::
  "pandas \<Rightarrow> string option \<Rightarrow> string \<Rightarrow> cell list \<Rightarrow> stats \<Rightarrow> stats" where
  "date_range L hinted_dtype column_name series stats =
     (if is_date_hint hinted_dtype \<or> contains ''date'' (lower column_name) then
        (let dt = coerce_datetime L series in
         if notna_any dt then
           dict_update stats
             [(''min_date'', SStr (str_of_date L (date_min (dropna dt)))),
              (''max_date'', SStr (str_of_date L (date_max (dropna dt))))]
         else stats)
      else stats)"

definition top_categories :: "pandas \<Rightarrow> cell list \<Rightarrow> stats \<Rightarrow> stats" where
  "top_categories L series stats =
     (if dtype_of series = DObject then
        (let vc = take 5 (value_counts (map (astype_str L) series)) in
         if length vc > 0 then dict_update stats [(''top_values'', SCounts vc)]
         else stats)
      else stats)"

definition column_stats ::
  "pandas \<Rightarrow> nat \<Rightarrow> TableSchema option \<Rightarrow> string \<Rightarrow> cell list \<Rightarrow> stats" where
  "column_stats L len_df t_schema column_name series =
     (let hinted_dtype = lookup_hint t_schema column_name in
      top_categories L series
        (date_range L hinted_dtype column_name series
           (numeric_summary L hinted_dtype series (base_stats len_df series))))"

text \<open>The columns whose numeric coercion has a non-null value, coerced.\<close>

definition numeric_columns :: "pandas \<Rightarrow> dataframe \<Rightarrow> (string \<times> real option list) list" where
  "numeric_columns L df =
     filter (\<lambda>(col, numeric_series). notna_any numeric_series)
       (map (\<lambda>(col, series). (col, coerce_numeric L series)) (df_columns df))"

text \<open>The body of the loop over \<open>sample_rows.items()\<close>: the profile of one table.\<close>

definition table_profile :: "pandas \<Rightarrow> TableSchema option \<Rightarrow> row list \<Rightarrow> table_info" where
  "table_profile L t_schema rows =
     (let df = to_dataframe rows;
          table_info = \<lparr>row_count = Some (nrows df), columns = Some [], correlation_pearson = None\<rparr>
      in if nrows df = 0 then table_info
         else
           (let cols = map (\<lambda>(column_name, series).
                         (column_name, column_stats L (nrows df) t_schema column_name series))
                       (df_columns df);
                numeric_df = numeric_columns L df
            in table_info
                 \<lparr>columns := Some cols,
                  correlation_pearson :=
                    (if length numeric_df \<ge> 2 then Some (corr_to_dict numeric_df) else None)\<rparr>))"

definition compute_profile ::
  "pandas \<Rightarrow> (string \<times> row list) list \<Rightarrow> TableSchema list \<Rightarrow> (string \<times> table_info) list" where
  "compute_profile L sample_rows tables =
     map (\<lambda>(table_name, rows).
            (table_name, table_profile L (schema_by_table tables table_name) rows))
         sample_rows"

section \<open>The flattener of \<open>dataide/services/profile.py\<close>\<close>

text \<open>\<open>corr.get(a, {}).get(b)\<close>.\<close>

definition corr_get :: "corr \<Rightarrow> string \<Rightarrow> string \<Rightarrow> statval option" where
  "corr_get corr a b = (case map_of corr a of None \<Rightarrow> None | Some d \<Rightarrow> map_of d b)"

text \<open>The two nested loops over \<open>enumerate(cols)\<close>: nothing for \<open>j \<le> i\<close>, nothing where the
  value is absent or \<open>None\<close>.\<close>

definition corr_rows :: "string \<Rightarrow> corr \<Rightarrow> flat_row list" where
  "corr_rows tname corr =
     (let cols = map fst corr in
      concat (map (\<lambda>i. concat (map (\<lambda>j.
        if j \<le> i then []
        else (case corr_get corr (cols ! i) (cols ! j) of
                None \<Rightarrow> []
              | Some SNone \<Rightarrow> []
              | Some val \<Rightarrow>
                  [\<lparr>r_level = ''correlation'', r_table = tname, r_column = [],
                    r_metric = cols ! i @ ''~'' @ cols ! j, r_value = val\<rparr>]))
        [0..<length cols])) [0..<length cols]))"

definition column_rows :: "string \<Rightarrow> (string \<times> stats) list \<Rightarrow> flat_row list" where
  "column_rows tname cs =
     concat (map (\<lambda>(col, cstats).
       map (\<lambda>(k, v). \<lparr>r_level = ''column'', r_table = tname, r_column = col,
                      r_metric = k, r_value = v\<rparr>) cstats) cs)"

definition table_rows :: "string \<Rightarrow> table_info \<Rightarrow> flat_row list" where
  "table_rows tname tinfo =
     [\<lparr>r_level = ''table'', r_table = tname, r_column = [], r_metric = ''row_count'',
       r_value = SInt (case row_count tinfo of None \<Rightarrow> 0 | Some n \<Rightarrow> int n)\<rparr>]
     @ column_rows tname (case columns tinfo of None \<Rightarrow> [] | Some cs \<Rightarrow> cs)
     @ (case correlation_pearson tinfo of None \<Rightarrow> []
        | Some corr \<Rightarrow> if corr \<noteq> [] then corr_rows tname corr else [])"

definition profile_to_rows :: "(string \<times> table_info) list \<Rightarrow> flat_row list" where
  "profile_to_rows profile = concat (map (\<lambda>(tname, tinfo). table_rows tname tinfo) profile)"

section \<open>\<open>dataide/services/charts.py\<close>\<close>

text \<open>The dash of the chart titles, in UTF-8.\<close>

definition em_dash :: string where
  "em_dash = [CHR 0xE2, CHR 0x80, CHR 0x94]"

text \<open>The charts of one table, in the order histogram, bar, line. The test
  \<open>if date_col and num_col\<close> fails on \<open>None\<close> and on the empty name.\<close>

definition table_charts :: "pandas \<Rightarrow> string \<Rightarrow> row list \<Rightarrow> SuggestedChart list" where
  "table_charts L table_name rows =
     (if rows = [] then []
      else
        (let df = to_dataframe rows;
             hist = (case find (\<lambda>(column, series). notna_any (coerce_numeric L series))
                            (df_columns df) of
                 None \<Rightarrow> []
               | Some (column, series) \<Rightarrow>
                   [\<lparr>ch_title = table_name @ ''.'' @ column @ '' '' @ em_dash @ '' distribution'',
                     ch_kind = ''hist'', ch_table = table_name, ch_x = column,
                     ch_y = None, ch_note = None\<rparr>]);
             bar = (case find (\<lambda>(column, series). dtype_of series = DObject
                                 \<and> length (remdups (map (astype_str L) series)) \<le> 30)
                            (df_columns df) of
                 None \<Rightarrow> []
               | Some (column, series) \<Rightarrow>
                   [\<lparr>ch_title = table_name @ ''.'' @ column @ '' '' @ em_dash @ '' top categories'',
                     ch_kind = ''bar'', ch_table = table_name, ch_x = column,
                     ch_y = None, ch_note = None\<rparr>]);
             date_col = map_option fst
               (find (\<lambda>(c, series). contains ''date'' (lower c)
                        \<and> notna_any (coerce_datetime L series)) (df_columns df));
             num_col = map_option fst
               (find (\<lambda>(c, series). notna_any (coerce_numeric L series)) (df_columns df));
             line = (case date_col of None \<Rightarrow> []
               | Some d \<Rightarrow> (case num_col of None \<Rightarrow> []
                 | Some n \<Rightarrow>
                     if d \<noteq> [] \<and> n \<noteq> [] then
                       [\<lparr>ch_title = table_name @ '': '' @ n @ '' over '' @ d,
                         ch_kind = ''line'', ch_table = table_name, ch_x = d,
                         ch_y = Some n, ch_note = None\<rparr>]
                     else []))
         in hist @ bar @ line))"

definition suggest_charts :: "pandas \<Rightarrow> (string \<times> row list) list \<Rightarrow> SuggestedChart list" where
  "suggest_charts L sample_rows =
     take 6 (concat (map (\<lambda>(table_name, rows). table_charts L table_name rows) sample_rows))"

section \<open>The second copy, in \<open>main.py\<close>\<close>

definition main_to_df :: "row list \<Rightarrow> dataframe" where
  "main_to_df rows =
     \<lparr>nrows = length rows,
      df_columns = map (\<lambda>c. (c, map (\<lambda>r. cell_at r c) rows))
                       (uniq (concat (map (map fst) rows)))\<rparr>"

definition main_coerce_numeric :: "pandas \<Rightarrow> cell list \<Rightarrow> real option list" where
  "main_coerce_numeric L s = map (to_numeric L) s"

definition main_coerce_datetime :: "pandas \<Rightarrow> cell list \<Rightarrow> int option list" where
  "main_coerce_datetime L s = to_datetime L s"

definition main_base_stats :: "nat \<Rightarrow> cell list \<Rightarrow> stats" where
  "main_base_stats len_df series =
     (let nn = length (filter (\<lambda>c. \<not> isna c) series) in
      [(''non_null'', SInt (int nn)),
       (''nulls'', SInt (int len_df - int nn)),
       (''null_pct'', SFloat (if len_df = 0 then 0
          else (real len_df - real nn) / real (max 1 len_df))),
       (''distinct'', SInt (int (nunique series)))])"

definition main_lookup_hint :: "TableSchema option \<Rightarrow> string \<Rightarrow> string option" where
  "main_lookup_hint t_schema col =
     (case t_schema of None \<Rightarrow> None | Some t \<Rightarrow> find_hint (schema_columns t) col)"

definition main_numeric_summary :: "pandas \<Rightarrow> string option \<Rightarrow> cell list \<Rightarrow> stats \<Rightarrow> stats" where
  "main_numeric_summary L hint series stats =
     (if is_numeric_hint hint \<or> is_numeric_dtype (dtype_of series) then
        (let num = main_coerce_numeric L series in
         if notna_any num then dict_update stats (numeric_block (dropna num))
         else stats)
      else stats)"

definition main_date_range ::
  "pandas \<Rightarrow> string option \<Rightarrow> string \<Rightarrow> cell list \<Rightarrow> stats \<Rightarrow> stats" where
  "main_date_range L hint col series stats =
     (if is_date_hint hint \<or> contains ''date'' (lower col) then
        (let dt = main_coerce_datetime L series in
         if notna_any dt then
           dict_update stats
             [(''min_date'', SStr (str_of_date L (date_min (dropna dt)))),
              (''max_date'', SStr (str_of_date L (date_max (dropna dt))))]
         else stats)
      else stats)"

definition main_top_categories :: "pandas \<Rightarrow> cell list \<Rightarrow> stats \<Rightarrow> stats" where
  "main_top_categories L series stats =
     (if dtype_of series = DObject then
        (let vc = take 5 (value_counts (map (astype_str L) series)) in
         if length vc > 0 then dict_update stats [(''top_values'', SCounts vc)]
         else stats)
      else stats)"

definition main_column_stats ::
  "pandas \<Rightarrow> nat \<Rightarrow> TableSchema option \<Rightarrow> string \<Rightarrow> cell list \<Rightarrow> stats" where
  "main_column_stats L len_df t_schema col series =
     (let hint = main_lookup_hint t_schema col in
      main_top_categories L series
        (main_date_range L hint col series
           (main_numeric_summary L hint series (main_base_stats len_df series))))"

definition main_df_num :: "pandas \<Rightarrow> dataframe \<Rightarrow> (string \<times> real option list) list" where
  "main_df_num L df =
     filter (\<lambda>(c, num). notna_any num)
       (map (\<lambda>(c, series). (c, main_coerce_numeric L series)) (df_columns df))"

definition main_table_profile :: "pandas \<Rightarrow> TableSchema option \<Rightarrow> row list \<Rightarrow> table_info" where
  "main_table_profile L t_schema rows =
     (let df = main_to_df rows;
          info = \<lparr>row_count = Some (nrows df), columns = Some [], correlation_pearson = None\<rparr>
      in if nrows df = 0 then info
         else
           (let cols = map (\<lambda>(col, series).
                         (col, main_column_stats L (nrows df) t_schema col series))
                       (df_columns df);
                df_num = main_df_num L df
            in info
                 \<lparr>columns := Some cols,
                  correlation_pearson :=
                    (if length df_num \<ge> 2 then Some (corr_to_dict df_num) else None)\<rparr>))"

definition main_compute_profile ::
  "pandas \<Rightarrow> (string \<times> row list) list \<Rightarrow> TableSchema list \<Rightarrow> (string \<times> table_info) list" where
  "main_compute_profile L sample_rows tables =
     map (\<lambda>(tname, rows). (tname, main_table_profile L (schema_by_table tables tname) rows))
         sample_rows"

definition main_table_charts :: "pandas \<Rightarrow> string \<Rightarrow> row list \<Rightarrow> SuggestedChart list" where
  "main_table_charts L tname rows =
     (if rows = [] then []
      else
        (let df = main_to_df rows;
             hist = (case find (\<lambda>(col, series). notna_any (main_coerce_numeric L series))
                            (df_columns df) of
                 None \<Rightarrow> []
               | Some (col, series) \<Rightarrow>
                   [\<lparr>ch_title = tname @ ''.'' @ col @ '' '' @ em_dash @ '' distribution'',
                     ch_kind = ''hist'', ch_table = tname, ch_x = col,
                     ch_y = None, ch_note = None\<rparr>]);
             bar = (case find (\<lambda>(col, series). dtype_of series = DObject
                                 \<and> length (remdups (map (astype_str L) series)) \<le> 30)
                            (df_columns df) of
                 None \<Rightarrow> []
               | Some (col, series) \<Rightarrow>
                   [\<lparr>ch_title = tname @ ''.'' @ col @ '' '' @ em_dash @ '' top categories'',
                     ch_kind = ''bar'', ch_table = tname, ch_x = col,
                     ch_y = None, ch_note = None\<rparr>]);
             date_col = map_option fst
               (find (\<lambda>(c, series). contains ''date'' (lower c)
                        \<and> notna_any (main_coerce_datetime L series)) (df_columns df));
             num_col = map_option fst
               (find (\<lambda>(c, series). notna_any (main_coerce_numeric L series)) (df_columns df));
             line = (case date_col of None \<Rightarrow> []
               | Some d \<Rightarrow> (case num_col of None \<Rightarrow> []
                 | Some n \<Rightarrow>
                     if d \<noteq> [] \<and> n \<noteq> [] then
                       [\<lparr>ch_title = tname @ '': '' @ n @ '' over '' @ d,
                         ch_kind = ''line'', ch_table = tname, ch_x = d,
                         ch_y = Some n, ch_note = None\<rparr>]
                     else []))
         in hist @ bar @ line))"

definition main_suggest_charts :: "pandas \<Rightarrow> (string \<times> row list) list \<Rightarrow> SuggestedChart list" where
  "main_suggest_charts L sample_rows =
     take 6 (concat (map (\<lambda>(tname, rows). main_table_charts L tname rows) sample_rows))"

definition main_corr_rows :: "string \<Rightarrow> corr \<Rightarrow> flat_row list" where
  "main_corr_rows tname corr =
     (let cols = map fst corr in
      concat (map (\<lambda>i. concat (map (\<lambda>j.
        if j \<le> i then []
        else (case corr_get corr (cols ! i) (cols ! j) of
                None \<Rightarrow> []
              | Some SNone \<Rightarrow> []
              | Some val \<Rightarrow>
                  [\<lparr>r_level = ''correlation'', r_table = tname, r_column = [],
                    r_metric = cols ! i @ ''~'' @ cols ! j, r_value = val\<rparr>]))
        [0..<length cols])) [0..<length cols]))"

definition main_column_rows :: "string \<Rightarrow> (string \<times> stats) list \<Rightarrow> flat_row list" where
  "main_column_rows tname cs =
     concat (map (\<lambda>(col, cstats).
       map (\<lambda>(k, v). \<lparr>r_level = ''column'', r_table = tname, r_column = col,
                      r_metric = k, r_value = v\<rparr>) cstats) cs)"

definition main_table_rows :: "string \<Rightarrow> table_info \<Rightarrow> flat_row list" where
  "main_table_rows tname tinfo =
     [\<lparr>r_level = ''table'', r_table = tname, r_column = [], r_metric = ''row_count'',
       r_value = SInt (case row_count tinfo of None \<Rightarrow> 0 | Some n \<Rightarrow> int n)\<rparr>]
     @ main_column_rows tname (case columns tinfo of None \<Rightarrow> [] | Some cs \<Rightarrow> cs)
     @ (case correlation_pearson tinfo of None \<Rightarrow> []
        | Some corr \<Rightarrow> if corr \<noteq> [] then main_corr_rows tname corr else [])"

definition main_profile_to_rows :: "(string \<times> table_info) list \<Rightarrow> flat_row list" where
  "main_profile_to_rows profile =
     concat (map (\<lambda>(tname, tinfo). main_table_rows tname tinfo) profile)"

section \<open>An instance of the library parameters\<close>

text \<open>
  For the concrete evaluations below: unsigned decimal integers are read as numbers, a
  number is taken as a timestamp, and numbers and dates print as decimal integers.
\<close>

definition digit_of :: "char \<Rightarrow> nat option" where
  "digit_of c = (let n = (of_char c :: nat) in if 48 \<le> n \<and> n \<le> 57 then Some (n - 48) else None)"

fun parse_digits :: "nat \<Rightarrow> string \<Rightarrow> nat option" where
  "parse_digits acc [] = Some acc"
| "parse_digits acc (c # cs) =
     (case digit_of c of None \<Rightarrow> None | Some d \<Rightarrow> parse_digits (10 * acc + d) cs)"

definition parse_unsigned :: "string \<Rightarrow> real option" where
  "parse_unsigned s = (if s = [] then None else map_option real (parse_digits 0 s))"

fun show_nat :: "nat \<Rightarrow> string" where
  "show_nat n =
     (if n < 10 then [char_of (48 + n)] else show_nat (n div 10) @ [char_of (48 + n mod 10)])"

declare show_nat.simps [simp del]

fun timestamp_of :: "cell \<Rightarrow> int option" where
  "timestamp_of (CNum r) = Some \<lfloor>r\<rfloor>"
| "timestamp_of CNone = None"
| "timestamp_of CNaN = None"
| "timestamp_of (CBool b) = None"
| "timestamp_of (CStr s) = None"

definition example_pandas :: pandas where
  "example_pandas =
     \<lparr>parse_float = parse_unsigned,
      to_datetime = map timestamp_of,
      str_of_num = (\<lambda>r. show_nat (nat \<lfloor>r\<rfloor>)),
      str_of_date = (\<lambda>t. show_nat (nat t))\<rparr>"

section \<open>Reading a profile\<close>

definition numeric_keys :: "string list" where
  "numeric_keys = [''min'', ''p25'', ''p50'', ''p75'', ''max'', ''mean'', ''std'']"



definition two_numbers :: "row list" where
  "two_numbers = [[(''a'', CNum 1)], [(''a'', CNum 2)]]"

text \<open>The first column, in column order, whose numeric coercion has a non-null value.\<close>

definition first_numeric :: "pandas \<Rightarrow> row list \<Rightarrow> (string \<times> cell list) option" where
  "first_numeric L rows =
     find (\<lambda>(c, series). notna_any (coerce_numeric L series)) (df_columns (to_dataframe rows))"

text \<open>Every line chart of the list has a partner (under \<open>m\<close>) in \<open>S\<close> or earlier in the
  list.\<close>

fun lines_matched ::
  "(SuggestedChart \<Rightarrow> SuggestedChart \<Rightarrow> bool) \<Rightarrow> SuggestedChart set
     \<Rightarrow> SuggestedChart list \<Rightarrow> bool" where
  "lines_matched m S [] = True"
| "lines_matched m S (x # xs) =
     ((ch_kind x = ''line'' \<longrightarrow> (\<exists>h\<in>S. m x h)) \<and> lines_matched m (insert x S) xs)"

definition dated_numbers :: "row list" where
  "dated_numbers = [[(''date'', CNum 1), (''b'', CStr ''x'')],
                    [(''date'', CNum 2), (''b'', CStr ''y'')]]"

definition with_null :: "row list" where
  "with_null = [[(''b'', CStr ''x'')], [(''b'', CNone)]]"

text \<open>A correlation block as the data model has it: every pair of its columns has an
  entry, and no entry is \<open>None\<close>.\<close>

definition corr_complete :: "corr \<Rightarrow> bool" where
  "corr_complete corr =
     list_all (\<lambda>a. list_all (\<lambda>b.
        (case corr_get corr a b of None \<Rightarrow> False | Some SNone \<Rightarrow> False | Some val \<Rightarrow> True))
        (map fst corr)) (map fst corr)"

definition well_formed :: "table_info \<Rightarrow> bool" where
  "well_formed tinfo = (case correlation_pearson tinfo of None \<Rightarrow> True | Some corr \<Rightarrow> corr_complete corr)"

text \<open>The flattener as the specification words it: per table one table-level record, one
  column-level record per column and stat key, and one correlation-level record per pair
  of positions \<open>i < j\<close> of the columns of the correlation block.\<close>

definition spec_table_record :: "string \<Rightarrow> table_info \<Rightarrow> flat_row" where
  "spec_table_record tname tinfo =
     \<lparr>r_level = ''table'', r_table = tname, r_column = [], r_metric = ''row_count'',
      r_value = SInt (case row_count tinfo of None \<Rightarrow> 0 | Some n \<Rightarrow> int n)\<rparr>"

definition spec_column_records :: "string \<Rightarrow> table_info \<Rightarrow> flat_row list" where
  "spec_column_records tname tinfo =
     concat (map (\<lambda>(col, cstats).
        map (\<lambda>(k, v). \<lparr>r_level = ''column'', r_table = tname, r_column = col,
                        r_metric = k, r_value = v\<rparr>) cstats)
        (case columns tinfo of None \<Rightarrow> [] | Some cs \<Rightarrow> cs))"

definition spec_pair_records :: "string \<Rightarrow> table_info \<Rightarrow> flat_row list" where
  "spec_pair_records tname tinfo =
     (case correlation_pearson tinfo of None \<Rightarrow> []
      | Some corr \<Rightarrow>
         (let cols = map fst corr in
          concat (map (\<lambda>i. map (\<lambda>j.
             \<lparr>r_level = ''correlation'', r_table = tname, r_column = [],
              r_metric = cols ! i @ ''~'' @ cols ! j,
              r_value = the (corr_get corr (cols ! i) (cols ! j))\<rparr>)
             [Suc i..<length cols]) [0..<length cols])))"

definition example_profile :: "(string \<times> table_info) list" where
  "example_profile =
     [(''t'', \<lparr>row_count = Some 2,
         columns = Some [(''a'', [(''non_null'', SInt 2)]), (''b'', [(''non_null'', SInt 2)])],
         correlation_pearson =
           Some [(''a'', [(''a'', SFloat 1), (''b'', SFloat (-1))]),
                 (''b'', [(''a'', SFloat (-1)), (''b'', SFloat 1)])]\<rparr>)]"




section \<open>The two copies agree\<close>

lemma main_to_df_eq: "main_to_df = to_dataframe"
  by (intro ext) (simp only: main_to_df_def to_dataframe_def)

lemma main_coerce_numeric_eq: "main_coerce_numeric = coerce_numeric"
  by (intro ext) (simp only: main_coerce_numeric_def coerce_numeric_def)

lemma main_coerce_datetime_eq: "main_coerce_datetime = coerce_datetime"
  by (intro ext) (simp only: main_coerce_datetime_def coerce_datetime_def)

lemma main_base_stats_eq: "main_base_stats = base_stats"
  by (intro ext) (simp only: main_base_stats_def base_stats_def)

lemma main_lookup_hint_eq: "main_lookup_hint = lookup_hint"
  by (intro ext) (simp only: main_lookup_hint_def lookup_hint_def)

lemma main_numeric_summary_eq: "main_numeric_summary = numeric_summary"
  by (intro ext)
    (simp only: main_numeric_summary_def numeric_summary_def main_coerce_numeric_eq)

lemma main_date_range_eq: "main_date_range = date_range"
  by (intro ext) (simp only: main_date_range_def date_range_def main_coerce_datetime_eq)

lemma main_top_categories_eq: "main_top_categories = top_categories"
  by (intro ext) (simp only: main_top_categories_def top_categories_def)

lemma main_column_stats_eq: "main_column_stats = column_stats"
  by (intro ext)
    (simp only: main_column_stats_def column_stats_def main_base_stats_eq main_lookup_hint_eq
       main_numeric_summary_eq main_date_range_eq main_top_categories_eq)

lemma main_df_num_eq: "main_df_num = numeric_columns"
  by (intro ext) (simp only: main_df_num_def numeric_columns_def main_coerce_numeric_eq)

lemma main_table_profile_eq: "main_table_profile = table_profile"
  by (intro ext)
    (simp only: main_table_profile_def table_profile_def main_to_df_eq main_column_stats_eq
       main_df_num_eq)

lemma main_table_charts_eq: "main_table_charts = table_charts"
  by (intro ext)
    (simp only: main_table_charts_def table_charts_def main_to_df_eq main_coerce_numeric_eq
       main_coerce_datetime_eq)

lemma main_corr_rows_eq: "main_corr_rows = corr_rows"
  by (intro ext) (simp only: main_corr_rows_def corr_rows_def)

lemma main_column_rows_eq: "main_column_rows = column_rows"
  by (intro ext) (simp only: main_column_rows_def column_rows_def)

lemma main_table_rows_eq: "main_table_rows = table_rows"
  by (intro ext)
    (simp only: main_table_rows_def table_rows_def main_corr_rows_eq main_column_rows_eq)

text \<open>
  C9. The implementations of \<open>compute_profile\<close>, \<open>suggest_charts\<close> and \<open>profile_to_rows\<close> in
  \<open>main.py\<close> return, on every input, what the implementations of the same names in
  \<open>dataide/services\<close> return.
\<close>

theorem main_copies_agree:
  "main_compute_profile = compute_profile
   \<and> main_suggest_charts = suggest_charts
   \<and> main_profile_to_rows = profile_to_rows"
proof (intro conjI ext)
  fix L sample_rows tables
  show "main_compute_profile L sample_rows tables = compute_profile L sample_rows tables"
    by (simp only: main_compute_profile_def compute_profile_def main_table_profile_eq)
next
  fix L sample_rows
  show "main_suggest_charts L sample_rows = suggest_charts L sample_rows"
    by (simp only: main_suggest_charts_def suggest_charts_def main_table_charts_eq)
next
  fix profile
  show "main_profile_to_rows profile = profile_to_rows profile"
    by (simp only: main_profile_to_rows_def profile_to_rows_def main_table_rows_eq)
qed

section \<open>Column profiles\<close>

lemma map_of_dict_update:
  "map_of (dict_update d kvs) k =
     (case map_of (rev kvs) k of Some v \<Rightarrow> Some v | None \<Rightarrow> map_of d k)"
proof (induction kvs arbitrary: d)
  case Nil
  show ?case by (simp add: dict_update_def)
next
  case (Cons kv kvs)
  obtain a b where kv: "kv = (a, b)" by (cases kv)
  have "dict_update d (kv # kvs) = dict_update (AList.update a b d) kvs"
    by (simp add: dict_update_def kv)
  then show ?case using Cons.IH [of "AList.update a b d"]
    by (auto simp: kv update_conv' map_add_def split: option.splits)
qed

lemma map_of_numeric_block:
  "map_of (rev (numeric_block vs)) k = None \<longleftrightarrow> k \<notin> set numeric_keys"
  by (simp add: numeric_block_def numeric_keys_def)

lemma map_of_top_categories:
  "k \<noteq> ''top_values'' \<Longrightarrow> map_of (top_categories L s d) k = map_of d k"
  by (simp add: top_categories_def Let_def map_of_dict_update)

lemma map_of_date_range:
  "k \<noteq> ''min_date'' \<Longrightarrow> k \<noteq> ''max_date'' \<Longrightarrow> map_of (date_range L h c s d) k = map_of d k"
  by (simp add: date_range_def Let_def map_of_dict_update)

lemma map_of_numeric_summary_other:
  "k \<notin> set numeric_keys \<Longrightarrow> map_of (numeric_summary L h s d) k = map_of d k"
  using map_of_numeric_block [of "dropna (coerce_numeric L s)" k]
  by (simp add: numeric_summary_def Let_def map_of_dict_update split: option.splits)





lemma column_stats_base:
  assumes "k \<in> set [''non_null'', ''nulls'', ''null_pct'', ''distinct'']"
  shows "map_of (column_stats L n ts c s) k = map_of (base_stats n s) k"
proof -
  have k: "k \<noteq> ''top_values''" "k \<noteq> ''min_date''" "k \<noteq> ''max_date''" "k \<notin> set numeric_keys"
    using assms by (auto simp: numeric_keys_def)
  show ?thesis
    unfolding column_stats_def Let_def
    by (simp only: map_of_top_categories [OF k(1)] map_of_date_range [OF k(2,3)]
        map_of_numeric_summary_other [OF k(4)])
qed

text \<open>What \<open>compute_profile\<close> emits as a column profile is the stats dict of a column of the
  frame of a table with at least one row.\<close>

lemma emitted_column:
  assumes "(t, info) \<in> set (compute_profile L sample_rows tables)"
    and "columns info = Some cs" and "(c, st) \<in> set cs"
  shows "\<exists>rows series. (t, rows) \<in> set sample_rows \<and> rows \<noteq> []
     \<and> row_count info = Some (length rows)
     \<and> (c, series) \<in> set (df_columns (to_dataframe rows))
     \<and> st = column_stats L (length rows) (schema_by_table tables t) c series"
proof -
  from assms(1) obtain rows where r: "(t, rows) \<in> set sample_rows"
    and i: "info = table_profile L (schema_by_table tables t) rows"
    by (auto simp: compute_profile_def)
  have ne: "rows \<noteq> []"
    using assms(2,3) i by (auto simp: table_profile_def to_dataframe_def Let_def)
  with i assms(2) have cs: "cs = map (\<lambda>(column_name, series).
       (column_name, column_stats L (length rows) (schema_by_table tables t) column_name series))
       (df_columns (to_dataframe rows))"
    by (auto simp: table_profile_def Let_def to_dataframe_def)
  from assms(3) obtain series where "(c, series) \<in> set (df_columns (to_dataframe rows))"
    and "st = column_stats L (length rows) (schema_by_table tables t) c series"
    unfolding cs by auto
  moreover have "row_count info = Some (length rows)"
    using i by (simp add: table_profile_def Let_def to_dataframe_def)
  ultimately show ?thesis using r ne by blast
qed





lemma two_numbers_frame:
  "to_dataframe two_numbers = \<lparr>nrows = 2, df_columns = [(''a'', [CNum 1, CNum 2])]\<rparr>"
  by (simp add: two_numbers_def to_dataframe_def uniq_def cell_at_def)

lemma two_numbers_profile:
  "compute_profile L [(''t'', two_numbers)] []
     = [(''t'', \<lparr>row_count = Some 2,
          columns = Some [(''a'', column_stats L 2 None ''a'' [CNum 1, CNum 2])],
          correlation_pearson = None\<rparr>)]"
  by (simp add: compute_profile_def table_profile_def two_numbers_frame numeric_columns_def
      schema_by_table_def)




text \<open>
  C5. For every column profile that \<open>compute_profile\<close> emits, \<open>non_null + nulls\<close> is the
  \<open>row_count\<close> of the table and \<open>null_pct\<close> is \<open>nulls\<close> divided by \<open>row_count\<close> (and 0 when
  \<open>row_count\<close> is 0).
\<close>

theorem null_accounting:
  assumes "(t, info) \<in> set (compute_profile L sample_rows tables)"
    and "columns info = Some cs" and "(c, st) \<in> set cs"
  shows "\<exists>n nn nl. row_count info = Some n
     \<and> map_of st ''non_null'' = Some (SInt nn) \<and> map_of st ''nulls'' = Some (SInt nl)
     \<and> nn + nl = int n
     \<and> map_of st ''null_pct'' = Some (SFloat (if n = 0 then 0 else real_of_int nl / real n))"
proof -
  from emitted_column [OF assms] obtain rows series
    where "(t, rows) \<in> set sample_rows"
      and rc: "row_count info = Some (length rows)" and ne: "rows \<noteq> []"
      and st: "st = column_stats L (length rows) (schema_by_table tables t) c series"
    by blast
  let ?nn = "int (length (filter (\<lambda>c. \<not> isna c) series))"
  let ?nl = "int (length rows) - ?nn"
  have "map_of st ''non_null'' = Some (SInt ?nn)"
    unfolding st by (simp add: column_stats_base base_stats_def Let_def)
  moreover have "map_of st ''nulls'' = Some (SInt ?nl)"
    unfolding st by (simp add: column_stats_base base_stats_def Let_def)
  moreover have "map_of st ''null_pct''
      = Some (SFloat (if length rows = 0 then 0 else real_of_int ?nl / real (length rows)))"
    unfolding st using ne
    by (cases rows) (simp_all add: column_stats_base base_stats_def Let_def max_def)
  moreover have "?nn + ?nl = int (length rows)" by simp
  ultimately show ?thesis using rc by blast
qed

theorem null_accounting_witness:
  "(''t'', \<lparr>row_count = Some 2,
       columns = Some [(''a'', column_stats example_pandas 2 None ''a'' [CNum 1, CNum 2])],
       correlation_pearson = None\<rparr>)
     \<in> set (compute_profile example_pandas [(''t'', two_numbers)] [])
   \<and> (\<exists>n nn nl. Some (2::nat) = Some n
     \<and> map_of (column_stats example_pandas 2 None ''a'' [CNum 1, CNum 2]) ''non_null''
          = Some (SInt nn)
     \<and> map_of (column_stats example_pandas 2 None ''a'' [CNum 1, CNum 2]) ''nulls''
          = Some (SInt nl)
     \<and> nn + nl = int n
     \<and> map_of (column_stats example_pandas 2 None ''a'' [CNum 1, CNum 2]) ''null_pct''
          = Some (SFloat (if n = 0 then 0 else real_of_int nl / real n)))"
proof -
  have h: "(''t'', \<lparr>row_count = Some 2,
       columns = Some [(''a'', column_stats example_pandas 2 None ''a'' [CNum 1, CNum 2])],
       correlation_pearson = None\<rparr>)
     \<in> set (compute_profile example_pandas [(''t'', two_numbers)] [])"
    by (simp add: two_numbers_profile)
  show ?thesis
    using h null_accounting [OF h, of "[(''a'', column_stats example_pandas 2 None ''a'' [CNum 1, CNum 2])]" "''a''"
        "column_stats example_pandas 2 None ''a'' [CNum 1, CNum 2]"]
    by simp
qed

text \<open>
  C7. For every table whose list of sample rows is empty, the table profile that
  \<open>compute_profile\<close> produces is exactly \<open>{row_count: 0, columns: {}}\<close>: no column profile
  and no correlation block.
\<close>

theorem empty_table_profile:
  assumes "i < length sample_rows" and "snd (sample_rows ! i) = []"
  shows "compute_profile L sample_rows tables ! i
     = (fst (sample_rows ! i),
        \<lparr>row_count = Some 0, columns = Some [], correlation_pearson = None\<rparr>)"
proof -
  obtain t rows where p: "sample_rows ! i = (t, rows)"
    by (cases "sample_rows ! i")
  with assms(2) have "rows = []" by simp
  with p assms(1) show ?thesis
    by (simp add: compute_profile_def table_profile_def to_dataframe_def)
qed

theorem empty_table_profile_witness:
  "(1::nat) < length [(''t'', two_numbers), (''u'', [])]
   \<and> snd ([(''t'', two_numbers), (''u'', [])] ! 1) = []
   \<and> compute_profile example_pandas [(''t'', two_numbers), (''u'', [])] [] ! 1
     = (''u'', \<lparr>row_count = Some 0, columns = Some [], correlation_pearson = None\<rparr>)"
  using empty_table_profile [of 1 "[(''t'', two_numbers), (''u'', [])]" example_pandas "[]"]
  by simp

section \<open>Chart suggestions\<close>

lemma lines_matched_mono:
  "lines_matched m S xs \<Longrightarrow> S \<subseteq> S' \<Longrightarrow> lines_matched m S' xs"
proof (induction xs arbitrary: S S')
  case Nil
  show ?case by simp
next
  case (Cons x xs)
  from Cons.prems have "lines_matched m (insert x S) xs" "insert x S \<subseteq> insert x S'"
    by auto
  then have "lines_matched m (insert x S') xs" by (rule Cons.IH)
  with Cons.prems show ?case by auto
qed

lemma lines_matched_append:
  "lines_matched m S (xs @ ys) \<longleftrightarrow> lines_matched m S xs \<and> lines_matched m (S \<union> set xs) ys"
  by (induction xs arbitrary: S) (auto simp: insert_commute Un_commute)

text \<open>Truncation keeps the property: a partner comes before its line chart.\<close>

lemma lines_matched_take:
  "lines_matched m S xs \<Longrightarrow> lines_matched m S (take n xs)"
proof (induction xs arbitrary: S n)
  case Nil
  show ?case by simp
next
  case (Cons x xs)
  show ?case
  proof (cases n)
    case 0
    then show ?thesis by simp
  next
    case (Suc k)
    with Cons show ?thesis by simp
  qed
qed

lemma lines_matched_member:
  "lines_matched m S xs \<Longrightarrow> ch \<in> set xs \<Longrightarrow> ch_kind ch = ''line''
     \<Longrightarrow> \<exists>h\<in>S \<union> set xs. m ch h"
proof (induction xs arbitrary: S)
  case Nil
  then show ?case by simp
next
  case (Cons x xs)
  show ?case
  proof (cases "ch = x")
    case True
    with Cons.prems show ?thesis by auto
  next
    case False
    with Cons.prems have "ch \<in> set xs" "lines_matched m (insert x S) xs" by auto
    from Cons.IH [OF this(2) this(1) Cons.prems(3)] show ?thesis by auto
  qed
qed

lemma lines_matched_concat:
  "(\<And>xs. xs \<in> set xss \<Longrightarrow> lines_matched m {} xs) \<Longrightarrow> lines_matched m S (concat xss)"
proof (induction xss arbitrary: S)
  case Nil
  show ?case by simp
next
  case (Cons xs xss)
  have "lines_matched m {} xs" using Cons.prems by simp
  then have "lines_matched m S xs" by (rule lines_matched_mono) simp
  moreover have "lines_matched m (S \<union> set xs) (concat xss)"
    using Cons.prems by (intro Cons.IH) simp
  ultimately show ?case by (simp add: lines_matched_append)
qed

lemma table_charts_matched:
  assumes "(t, rows) \<in> set sample_rows"
  shows "lines_matched (\<lambda>ch h. ch_kind h = ''hist'' \<and> ch_table h = ch_table ch
       \<and> ch_y ch = Some (ch_x h)
       \<and> (\<exists>rows series. (ch_table ch, rows) \<in> set sample_rows
            \<and> first_numeric L rows = Some (ch_x h, series)))
     {} (table_charts L t rows)"
  using assms
  by (auto simp: table_charts_def Let_def first_numeric_def lines_matched_append
      split: option.splits)

lemma dated_numbers_frame:
  "to_dataframe dated_numbers
     = \<lparr>nrows = 2, df_columns = [(''date'', [CNum 1, CNum 2]), (''b'', [CStr ''x'', CStr ''y''])]\<rparr>"
  by (simp add: dated_numbers_def to_dataframe_def uniq_def cell_at_def)

lemma dated_numbers_charts:
  "suggest_charts example_pandas [(''t'', dated_numbers)]
     = [\<lparr>ch_title = ''t.date '' @ em_dash @ '' distribution'', ch_kind = ''hist'',
          ch_table = ''t'', ch_x = ''date'', ch_y = None, ch_note = None\<rparr>,
        \<lparr>ch_title = ''t.b '' @ em_dash @ '' top categories'', ch_kind = ''bar'',
          ch_table = ''t'', ch_x = ''b'', ch_y = None, ch_note = None\<rparr>,
        \<lparr>ch_title = ''t: date over date'', ch_kind = ''line'',
          ch_table = ''t'', ch_x = ''date'', ch_y = Some ''date'', ch_note = None\<rparr>]"
proof -
  have "dated_numbers \<noteq> []" by (simp add: dated_numbers_def)
  then show ?thesis
    by (simp add: suggest_charts_def table_charts_def dated_numbers_frame coerce_numeric_def
        coerce_datetime_def notna_any_def dtype_of_def example_pandas_def lower_def
        lower_char_def)
qed

text \<open>
  C10. Whenever \<open>suggest_charts\<close> emits a line suggestion for a table, it has also emitted
  a histogram suggestion for that table, and the \<open>y\<close> column of the line is the \<open>x\<close> column
  of the histogram: the first column, in column order, whose numeric coercion yields a
  non-null value. Nothing keeps that column apart from the date column of the line: the
  witness is a table whose column \<open>date\<close> is paired with itself.
\<close>

theorem line_chart_has_histogram:
  assumes "ch \<in> set (suggest_charts L sample_rows)" and "ch_kind ch = ''line''"
  shows "\<exists>h rows series. h \<in> set (suggest_charts L sample_rows)
     \<and> ch_kind h = ''hist'' \<and> ch_table h = ch_table ch \<and> ch_y ch = Some (ch_x h)
     \<and> (ch_table ch, rows) \<in> set sample_rows
     \<and> first_numeric L rows = Some (ch_x h, series)"
proof -
  let ?m = "\<lambda>ch h. ch_kind h = ''hist'' \<and> ch_table h = ch_table ch
       \<and> ch_y ch = Some (ch_x h)
       \<and> (\<exists>rows series. (ch_table ch, rows) \<in> set sample_rows
            \<and> first_numeric L rows = Some (ch_x h, series))"
  have "lines_matched ?m {}
      (concat (map (\<lambda>(table_name, rows). table_charts L table_name rows) sample_rows))"
  proof (rule lines_matched_concat)
    fix xs
    assume "xs \<in> set (map (\<lambda>(table_name, rows). table_charts L table_name rows) sample_rows)"
    then obtain t rows where "(t, rows) \<in> set sample_rows" and "xs = table_charts L t rows"
      by auto
    then show "lines_matched ?m {} xs"
      using table_charts_matched [of t rows sample_rows L] by simp
  qed
  then have "lines_matched ?m {} (suggest_charts L sample_rows)"
    unfolding suggest_charts_def by (rule lines_matched_take)
  from lines_matched_member [OF this assms] show ?thesis by blast
qed

theorem line_chart_has_histogram_witness:
  "\<lparr>ch_title = ''t: date over date'', ch_kind = ''line'', ch_table = ''t'', ch_x = ''date'',
     ch_y = Some ''date'', ch_note = None\<rparr>
     \<in> set (suggest_charts example_pandas [(''t'', dated_numbers)])
   \<and> (\<exists>h rows series. h \<in> set (suggest_charts example_pandas [(''t'', dated_numbers)])
     \<and> ch_kind h = ''hist'' \<and> ch_table h = ''t'' \<and> Some ''date'' = Some (ch_x h)
     \<and> (''t'', rows) \<in> set [(''t'', dated_numbers)]
     \<and> first_numeric example_pandas rows = Some (ch_x h, series))"
proof -
  have h: "\<lparr>ch_title = ''t: date over date'', ch_kind = ''line'', ch_table = ''t'',
      ch_x = ''date'', ch_y = Some ''date'', ch_note = None\<rparr>
     \<in> set (suggest_charts example_pandas [(''t'', dated_numbers)])"
    by (simp add: dated_numbers_charts)
  show ?thesis using h line_chart_has_histogram [OF h] by simp
qed

section \<open>Top values\<close>

lemma with_null_frame:
  "to_dataframe with_null = \<lparr>nrows = 2, df_columns = [(''b'', [CStr ''x'', CNone])]\<rparr>"
  by (simp add: with_null_def to_dataframe_def uniq_def cell_at_def)

lemma with_null_dtype: "dtype_of [CStr ''x'', CNone] = DObject"
  by (simp add: dtype_of_def)

lemma with_null_vc: "value_counts [''x'', ''None''] = [(''x'', 1), (''None'', 1)]"
  by (simp add: value_counts_def uniq_def)

lemma with_null_base: "base_stats 2 [CStr ''x'', CNone] = [(''non_null'', SInt 1), (''nulls'', SInt 1), (''null_pct'', SFloat (1/2)),
        (''distinct'', SInt 1)]"
  by (simp add: base_stats_def nunique_def)

lemma with_null_stats:
  "column_stats example_pandas 2 None ''b'' [CStr ''x'', CNone]
     = [(''non_null'', SInt 1), (''nulls'', SInt 1), (''null_pct'', SFloat (1/2)),
        (''distinct'', SInt 1), (''top_values'', SCounts [(''x'', 1), (''None'', 1)])]"
  by (simp add: column_stats_def lookup_hint_def top_categories_def date_range_def
      numeric_summary_def with_null_base with_null_dtype with_null_vc is_numeric_hint_def
      is_date_hint_def lower_def lower_char_def dict_update_def)

lemma with_null_coerce:
  "coerce_numeric example_pandas [CStr ''x'', CNone] = [None, None]"
  by (simp add: coerce_numeric_def example_pandas_def parse_unsigned_def digit_of_def)

text \<open>
  C2. The claim has the nulls left out of the stringification and of the counts. The code
  stringifies the whole column first (\<open>astype(str)\<close>), so a \<open>None\<close> becomes the text
  \<open>None\<close> and \<open>value_counts(dropna=True)\<close> finds no null to drop: on the column
  \<open>["x", None]\<close> the block \<open>top_values\<close> counts \<open>None\<close> once.
\<close>

theorem top_values_count_null:
  "compute_profile example_pandas [(''t'', with_null)] []
     = [(''t'', \<lparr>row_count = Some 2,
          columns = Some [(''b'', [(''non_null'', SInt 1), (''nulls'', SInt 1),
             (''null_pct'', SFloat (1/2)), (''distinct'', SInt 1),
             (''top_values'', SCounts [(''x'', 1), (''None'', 1)])])],
          correlation_pearson = None\<rparr>)]"
  by (simp add: compute_profile_def table_profile_def with_null_frame with_null_stats
      with_null_coerce notna_any_def numeric_columns_def schema_by_table_def)

section \<open>The flattener\<close>

lemma concat_skip_upto:
  "concat (map (\<lambda>j. if j \<le> i then [] else [g j]) [0..<n]) = map g [Suc i..<n]"
  by (induction n) auto

lemma corr_rows_complete:
  assumes "corr_complete corr"
  shows "corr_rows tname corr =
     (let cols = map fst corr in
          concat (map (\<lambda>i. map (\<lambda>j.
             \<lparr>r_level = ''correlation'', r_table = tname, r_column = [],
              r_metric = cols ! i @ ''~'' @ cols ! j,
              r_value = the (corr_get corr (cols ! i) (cols ! j))\<rparr>)
             [Suc i..<length cols]) [0..<length cols]))"
proof -
  let ?cols = "map fst corr"
  let ?n = "length ?cols"
  let ?g = "\<lambda>i j. \<lparr>r_level = ''correlation'', r_table = tname, r_column = [],
              r_metric = ?cols ! i @ ''~'' @ ?cols ! j,
              r_value = the (corr_get corr (?cols ! i) (?cols ! j))\<rparr>"
  have ok: "\<And>i j. i < ?n \<Longrightarrow> j < ?n \<Longrightarrow>
      (case corr_get corr (?cols ! i) (?cols ! j) of None \<Rightarrow> []
              | Some SNone \<Rightarrow> []
              | Some val \<Rightarrow>
                  [\<lparr>r_level = ''correlation'', r_table = tname, r_column = [],
                    r_metric = ?cols ! i @ ''~'' @ ?cols ! j, r_value = val\<rparr>]) = [?g i j]"
  proof -
    fix i j assume "i < ?n" "j < ?n"
    then have "?cols ! i \<in> set ?cols" "?cols ! j \<in> set ?cols" by (simp_all only: nth_mem)
    with assms have "case corr_get corr (?cols ! i) (?cols ! j) of None \<Rightarrow> False | Some SNone \<Rightarrow> False | Some val \<Rightarrow> True"
      unfolding corr_complete_def list_all_iff by blast
    then show "(case corr_get corr (?cols ! i) (?cols ! j) of None \<Rightarrow> []
              | Some SNone \<Rightarrow> []
              | Some val \<Rightarrow>
                  [\<lparr>r_level = ''correlation'', r_table = tname, r_column = [],
                    r_metric = ?cols ! i @ ''~'' @ ?cols ! j, r_value = val\<rparr>]) = [?g i j]"
      by (auto split: option.splits statval.splits)
  qed
  have inner: "\<And>i. i < ?n \<Longrightarrow>
     concat (map (\<lambda>j. if j \<le> i then []
        else (case corr_get corr (?cols ! i) (?cols ! j) of None \<Rightarrow> []
              | Some SNone \<Rightarrow> []
              | Some val \<Rightarrow>
                  [\<lparr>r_level = ''correlation'', r_table = tname, r_column = [],
                    r_metric = ?cols ! i @ ''~'' @ ?cols ! j, r_value = val\<rparr>])) [0..<?n])
     = map (?g i) [Suc i..<?n]"
  proof -
    fix i assume i: "i < ?n"
    have "map (\<lambda>j. if j \<le> i then []
        else (case corr_get corr (?cols ! i) (?cols ! j) of None \<Rightarrow> []
              | Some SNone \<Rightarrow> []
              | Some val \<Rightarrow>
                  [\<lparr>r_level = ''correlation'', r_table = tname, r_column = [],
                    r_metric = ?cols ! i @ ''~'' @ ?cols ! j, r_value = val\<rparr>])) [0..<?n]
      = map (\<lambda>j. if j \<le> i then [] else [?g i j]) [0..<?n]"
      using ok [OF i] by (intro map_cong) auto
    then show "concat (map (\<lambda>j. if j \<le> i then []
        else (case corr_get corr (?cols ! i) (?cols ! j) of None \<Rightarrow> []
              | Some SNone \<Rightarrow> []
              | Some val \<Rightarrow>
                  [\<lparr>r_level = ''correlation'', r_table = tname, r_column = [],
                    r_metric = ?cols ! i @ ''~'' @ ?cols ! j, r_value = val\<rparr>])) [0..<?n])
     = map (?g i) [Suc i..<?n]"
      by (simp only: concat_skip_upto)
  qed
  show ?thesis
    unfolding corr_rows_def Let_def
    using inner by (intro arg_cong [where f = concat] map_cong) auto
qed

lemma table_rows_spec:
  assumes "well_formed tinfo"
  shows "table_rows tname tinfo =
     spec_table_record tname tinfo # spec_column_records tname tinfo @ spec_pair_records tname tinfo"
proof (cases "correlation_pearson tinfo")
  case None
  then show ?thesis
    by (simp add: table_rows_def spec_table_record_def spec_column_records_def
        spec_pair_records_def column_rows_def)
next
  case (Some corr)
  with assms have c: "corr_complete corr" by (simp add: well_formed_def)
  have "(if corr \<noteq> [] then corr_rows tname corr else []) = corr_rows tname corr"
    by (simp add: corr_rows_def)
  then show ?thesis
    using Some corr_rows_complete [OF c, of tname]
    by (simp add: table_rows_def spec_table_record_def spec_column_records_def
        spec_pair_records_def column_rows_def)
qed

section \<open>Quantiles\<close>
















section \<open>The correlation block\<close>






lemma complete_pairs_self: "complete_pairs xs xs = map (\<lambda>x. (x, x)) (dropna xs)"
proof (induction xs)
  case Nil
  show ?case by simp
next
  case (Cons a xs)
  then show ?case by (cases a) simp_all
qed

lemma pearson_self:
  "pearson xs xs = None \<or> pearson xs xs = Some 1"
proof -
  define ps where "ps = complete_pairs xs xs"
  define mx where "mx = mean (map fst ps)"
  define A where "A = (\<Sum>(x, y)\<leftarrow>ps. (x - mx)\<^sup>2)"
  have m: "mean (map snd ps) = mx" by (simp add: mx_def ps_def complete_pairs_self comp_def)
  have e1: "(\<Sum>(x, y)\<leftarrow>ps. (y - mx)\<^sup>2) = A"
    by (simp add: A_def ps_def complete_pairs_self comp_def)
  have e2: "(\<Sum>(x, y)\<leftarrow>ps. (x - mx) * (y - mx)) = A"
    by (simp add: A_def ps_def complete_pairs_self comp_def power2_eq_square)
  have A0: "0 \<le> A" unfolding A_def by (rule sum_list_nonneg) auto
  then have s: "sqrt (A * A) = A" by simp
  show ?thesis
    unfolding pearson_def Let_def ps_def [symmetric] mx_def [symmetric] m A_def [symmetric] e1 e2 s
    by simp
qed




lemma round3_one: "round3 (Some 1) = SFloat 1"
  by (simp add: round3_def round_half_even_def)



lemma corr_entry_diag:
  "round3 (corr_entry mat i i) = SNaN \<or> round3 (corr_entry mat i i) = SFloat 1"
proof -
  have e: "corr_entry mat i i = pearson (mat ! i) (mat ! i)" by (simp add: corr_entry_def)
  from pearson_self [of "mat ! i"] show ?thesis
  proof
    assume "pearson (mat ! i) (mat ! i) = None"
    then show ?thesis unfolding e by (simp add: round3_def)
  next
    assume "pearson (mat ! i) (mat ! i) = Some 1"
    then show ?thesis unfolding e by (simp only: round3_one simp_thms)
  qed
qed

lemma map_fst_corr_to_dict: "map fst (corr_to_dict df) = map fst df"
  by (simp add: corr_to_dict_def Let_def comp_def map_nth [of "map fst df", simplified])

lemma corr_get_corr_to_dict:
  assumes "distinct (map fst df)" "i < length df" "j < length df"
  shows "corr_get (corr_to_dict df) (fst (df ! j)) (fst (df ! i))
     = Some (round3 (corr_entry (map snd df) i j))"
proof -
  let ?names = "map fst df" and ?n = "length df"
  let ?inner = "\<lambda>j. map (\<lambda>i. (?names ! i, round3 (corr_entry (map snd df) i j))) [0..<?n]"
  have d: "corr_to_dict df = map (\<lambda>j. (?names ! j, ?inner j)) [0..<?n]"
    by (simp add: corr_to_dict_def Let_def)
  have fo: "map fst (map (\<lambda>j. (?names ! j, ?inner j)) [0..<?n]) = ?names"
    using map_fst_corr_to_dict [of df] unfolding d .
  have fi: "map fst (?inner j) = ?names"
    by (simp add: comp_def map_nth [of "map fst df", simplified])
  have "(?names ! j, ?inner j) \<in> set (map (\<lambda>j. (?names ! j, ?inner j)) [0..<?n])"
    using assms(3) by auto
  then have o: "map_of (corr_to_dict df) (?names ! j) = Some (?inner j)"
    unfolding d using assms(1) fo by (intro map_of_is_SomeI) auto
  have "(?names ! i, round3 (corr_entry (map snd df) i j)) \<in> set (?inner j)"
    using assms(2) by auto
  then have "map_of (?inner j) (?names ! i) = Some (round3 (corr_entry (map snd df) i j))"
    using assms(1) fi by (intro map_of_is_SomeI) auto
  with o show ?thesis using assms(2,3) by (simp add: corr_get_def)
qed

lemma numeric_columns_distinct: "distinct (map fst (numeric_columns L (to_dataframe rows)))"
proof -
  have "distinct (map fst (df_columns (to_dataframe rows)))"
    by (simp add: to_dataframe_def comp_def uniq_def)
  then have "distinct (map fst (map (\<lambda>(col, series). (col, coerce_numeric L series))
      (df_columns (to_dataframe rows))))"
    by (simp add: comp_def case_prod_unfold)
  then show ?thesis unfolding numeric_columns_def by (rule distinct_map_filter)
qed













section \<open>The flattener on profiling summaries\<close>

lemma corr_complete_corr_to_dict:
  assumes "distinct (map fst df)"
  shows "corr_complete (corr_to_dict df)"
proof -
  have "case corr_get (corr_to_dict df) a b of None \<Rightarrow> False | Some SNone \<Rightarrow> False
      | Some val \<Rightarrow> True"
    if "a \<in> set (map fst (corr_to_dict df))" and "b \<in> set (map fst (corr_to_dict df))"
    for a b
  proof -
    from that(1) obtain j where j: "j < length df" "a = fst (df ! j)"
      unfolding map_fst_corr_to_dict by (auto simp: in_set_conv_nth)
    from that(2) obtain i where i: "i < length df" "b = fst (df ! i)"
      unfolding map_fst_corr_to_dict by (auto simp: in_set_conv_nth)
    have "corr_get (corr_to_dict df) a b = Some (round3 (corr_entry (map snd df) i j))"
      unfolding j(2) i(2) by (rule corr_get_corr_to_dict [OF assms i(1) j(1)])
    then show ?thesis by (simp add: round3_def split: option.splits)
  qed
  then show ?thesis unfolding corr_complete_def list_all_iff by blast
qed

lemma table_profile_well_formed: "well_formed (table_profile L ts rows)"
  using corr_complete_corr_to_dict [OF numeric_columns_distinct [of L rows]]
  by (simp add: well_formed_def table_profile_def Let_def)

text \<open>
  C8. For every profiling summary whose correlation blocks are complete, as in the data
  model and as \<open>compute_profile\<close> produces them (first part), \<open>profile_to_rows\<close> emits per
  table exactly one table-level record with metric \<open>row_count\<close>, exactly one column-level
  record per column and stat key of that column's profile, and, when there is a
  correlation block, exactly one correlation-level record per pair of positions \<open>i < j\<close>
  of its columns, with metric \<open>colA~colB\<close>; the diagonal and the mirrored pair are not
  emitted.
\<close>

theorem flattener_records:
  "list_all (\<lambda>(tname, tinfo). well_formed tinfo) (compute_profile L sample_rows tables)
   \<and> (list_all (\<lambda>(tname, tinfo). well_formed tinfo) profile \<longrightarrow>
        profile_to_rows profile =
          concat (map (\<lambda>(tname, tinfo). spec_table_record tname tinfo
            # spec_column_records tname tinfo @ spec_pair_records tname tinfo) profile))"
proof (intro conjI impI)
  show "list_all (\<lambda>(tname, tinfo). well_formed tinfo) (compute_profile L sample_rows tables)"
    by (auto simp: list_all_iff compute_profile_def table_profile_well_formed)
next
  assume "list_all (\<lambda>(tname, tinfo). well_formed tinfo) profile"
  then show "profile_to_rows profile =
      concat (map (\<lambda>(tname, tinfo). spec_table_record tname tinfo
        # spec_column_records tname tinfo @ spec_pair_records tname tinfo) profile)"
    unfolding profile_to_rows_def
    by (intro arg_cong [where f = concat] map_cong) (auto simp: list_all_iff table_rows_spec)
qed

theorem flattener_records_witness:
  "list_all (\<lambda>(tname, tinfo). well_formed tinfo) example_profile
   \<and> profile_to_rows example_profile =
     [\<lparr>r_level = ''table'', r_table = ''t'', r_column = [], r_metric = ''row_count'',
        r_value = SInt 2\<rparr>,
      \<lparr>r_level = ''column'', r_table = ''t'', r_column = ''a'', r_metric = ''non_null'',
        r_value = SInt 2\<rparr>,
      \<lparr>r_level = ''column'', r_table = ''t'', r_column = ''b'', r_metric = ''non_null'',
        r_value = SInt 2\<rparr>,
      \<lparr>r_level = ''correlation'', r_table = ''t'', r_column = [], r_metric = ''a~b'',
        r_value = SFloat (-1)\<rparr>]"
proof -
  have h: "list_all (\<lambda>(tname, tinfo). well_formed tinfo) example_profile"
    by (simp add: example_profile_def well_formed_def corr_complete_def corr_get_def)
  have "[0..<2] = [0, 1]" "[Suc 0..<2] = [1]" "[Suc 1..<2] = []"
    by (simp_all add: upt_rec)
  then show ?thesis
    using h flattener_records [of example_pandas "[]" "[]" example_profile, THEN conjunct2,
        rule_format, OF h]
    by (simp add: example_profile_def spec_table_record_def spec_column_records_def
        spec_pair_records_def corr_get_def)
qed

end
